theory Spec2Isabelle
  imports Main "HOL-Library.AList"
begin

section \<open>Python values used by ecs.py\<close>

text \<open>
  The exceptions the module can raise.  None is raised explicitly; each comes from a
  built-in: \<^verbatim>\<open>list.remove\<close> of a missing element (ValueError), \<^verbatim>\<open>next\<close> applied to
  an object that is not an iterator (TypeError), and a method looked up on an object
  whose class does not define it (AttributeError).
\<close>

datatype error = ValueError | TypeError | AttributeError

text \<open>
  A class object: its name and its direct base classes.  \<^verbatim>\<open>type(x) == T\<close> compares class
  objects, so it is equality of these values; \<open>issubclass\<close> follows the bases.
\<close>

datatype pytype = PyType (type_name: string) (type_bases: "pytype list")

fun issubclass :: "pytype \<Rightarrow> pytype \<Rightarrow> bool" where
  "issubclass (PyType n bs) S = (PyType n bs = S \<or> list_ex (\<lambda>b. issubclass b S) bs)"

text \<open>C is a strict subclass of S: S is reached through one of C's bases.\<close>

fun strict_subclass :: "pytype \<Rightarrow> pytype \<Rightarrow> bool" where
  "strict_subclass (PyType n bs) S = list_ex (\<lambda>b. issubclass b S) bs"

text \<open>Object identities.  Neither Entity, Component nor System defines \<^verbatim>\<open>__eq__\<close>, so
  \<^verbatim>\<open>==\<close>, \<^verbatim>\<open>in\<close> and \<^verbatim>\<open>list.remove\<close> compare by identity.\<close>

type_synonym addr = nat

text \<open>An instance of (a subclass of) \<^verbatim>\<open>Component\<close>: its concrete class and its identity.\<close>

datatype component = Component (c_type: pytype) (c_id: addr)

text \<open>An instance of (a subclass of) \<^verbatim>\<open>System\<close>.\<close>

datatype system = System (s_type: pytype) (s_id: addr)

text \<open>
  What a list of the world's type index can hold at run time.  The annotation says
  \<^verbatim>\<open>List[Entity]\<close>, but Python does not enforce it and \<^verbatim>\<open>push_component\<close> appends the
  component, so both kinds of object occur.  An entity and a component are never the
  same object.
\<close>

datatype obj = EntityRef addr | ComponentRef component

subsection \<open>Built-ins\<close>

text \<open>\<^verbatim>\<open>xs.remove(x)\<close>: removes the first element equal to x, ValueError when there is none.\<close>

definition list_remove :: "'a list \<Rightarrow> 'a \<Rightarrow> error + 'a list" where
  "list_remove xs x = (if x \<in> set xs then Inr (remove1 x xs) else Inl ValueError)"

text \<open>
  \<^verbatim>\<open>next(xs, default)\<close> where xs is a list.  The built-in requires an iterator (an object
  with \<^verbatim>\<open>__next__\<close>); a list is iterable but is not an iterator, so the call raises
  TypeError ("'list' object is not an iterator") whatever the list holds, and the
  default is never used.
\<close>

definition next_of_list :: "'a list \<Rightarrow> 'b \<Rightarrow> error + 'b" where
  "next_of_list xs d = Inl TypeError"

text \<open>A list comprehension \<^verbatim>\<open>[f(x) for x in xs]\<close> whose body can raise: the first
  exception ends it.\<close>

fun comprehension :: "('a \<Rightarrow> error + 'b) \<Rightarrow> 'a list \<Rightarrow> error + 'b list" where
  "comprehension f [] = Inr []"
| "comprehension f (x # xs) =
     (case f x of
        Inl err \<Rightarrow> Inl err
      | Inr y \<Rightarrow> (case comprehension f xs of Inl err \<Rightarrow> Inl err | Inr ys \<Rightarrow> Inr (y # ys)))"

section \<open>class Entity\<close>

text \<open>\<^verbatim>\<open>self.components: Dict[Type[Component], Component]\<close>, as an association list.\<close>

record entity =
  e_components :: "(pytype \<times> component) list"

definition Entity :: entity where
  "Entity = \<lparr>e_components = []\<rparr>"

definition entity_has_component :: "entity \<Rightarrow> pytype \<Rightarrow> bool" where
  "entity_has_component e T = (T \<in> fst ` set (e_components e))"

definition entity_get_component :: "entity \<Rightarrow> pytype \<Rightarrow> component option" where
  "entity_get_component e T = map_of (e_components e) T"

definition entity_push_component :: "entity \<Rightarrow> component \<Rightarrow> entity" where
  "entity_push_component e c = e\<lparr>e_components := AList.update (c_type c) c (e_components e)\<rparr>"

definition entity_pop_component :: "entity \<Rightarrow> pytype \<Rightarrow> entity" where
  "entity_pop_component e T = e\<lparr>e_components := AList.delete T (e_components e)\<rparr>"

section \<open>class World\<close>

text \<open>
  The three attributes of a World, and the Entity objects its references point to:
  \<open>heap\<close> gives the current value of the Entity object at each identity and \<open>fresh\<close>
  is the identity the next \<^verbatim>\<open>Entity()\<close> gets.  \<open>components\<close> is the
  \<^verbatim>\<open>defaultdict(list)\<close>, in insertion order.
\<close>

record world =
  heap :: "addr \<Rightarrow> entity"
  fresh :: addr
  entities :: "addr list"
  components :: "(pytype \<times> obj list) list"
  systems :: "system list"

definition World :: world where
  "World = \<lparr>heap = (\<lambda>_. Entity), fresh = 0, entities = [], components = [], systems = []\<rparr>"

text \<open>\<^verbatim>\<open>self.components[T]\<close>: a defaultdict stores and returns the factory's value, an
  empty list, for a missing key.\<close>

definition components_getitem :: "world \<Rightarrow> pytype \<Rightarrow> obj list \<times> world" where
  "components_getitem w T =
     (case map_of (components w) T of
        Some xs \<Rightarrow> (xs, w)
      | None \<Rightarrow> ([], w\<lparr>components := AList.update T [] (components w)\<rparr>))"

definition has_entity :: "world \<Rightarrow> addr \<Rightarrow> bool" where
  "has_entity w e = (e \<in> set (entities w))"

definition push_entity :: "world \<Rightarrow> addr \<times> world" where
  "push_entity w =
     (let e = fresh w
      in (e, w\<lparr>heap := (heap w)(e := Entity), fresh := Suc e, entities := entities w @ [e]\<rparr>))"

text \<open>The loop of \<^verbatim>\<open>pop_entity\<close> over \<^verbatim>\<open>self.components.items()\<close>.\<close>

definition pop_entity_buckets ::
  "addr \<Rightarrow> (pytype \<times> obj list) list \<Rightarrow> (pytype \<times> obj list) list" where
  "pop_entity_buckets e bs =
     map (\<lambda>(T, xs). (T, if EntityRef e \<in> set xs then remove1 (EntityRef e) xs else xs)) bs"

definition pop_entity :: "world \<Rightarrow> addr \<Rightarrow> (error + unit) \<times> world" where
  "pop_entity w e =
     (case list_remove (entities w) e of
        Inl err \<Rightarrow> (Inl err, w)
      | Inr es \<Rightarrow>
          (Inr (), w\<lparr>entities := es, components := pop_entity_buckets e (components w)\<rparr>))"

definition has_component :: "world \<Rightarrow> addr \<Rightarrow> pytype \<Rightarrow> bool \<times> world" where
  "has_component w e T =
     (let (xs, w') = components_getitem w T in (EntityRef e \<in> set xs, w'))"

text \<open>\<^verbatim>\<open>x._get_component(T)\<close> for an element x of a bucket: the method exists on an
  Entity only.\<close>

definition obj_get_component :: "world \<Rightarrow> pytype \<Rightarrow> obj \<Rightarrow> error + component option" where
  "obj_get_component w T x =
     (case x of
        EntityRef a \<Rightarrow> Inr (entity_get_component (heap w a) T)
      | ComponentRef c \<Rightarrow> Inl AttributeError)"

definition get_components ::
  "world \<Rightarrow> pytype \<Rightarrow> (error + component option list) \<times> world" where
  "get_components w T =
     (let (xs, w') = components_getitem w T
      in (comprehension (obj_get_component w' T) xs, w'))"

definition get_entities_by_component :: "world \<Rightarrow> pytype \<Rightarrow> obj list \<times> world" where
  "get_entities_by_component w T = components_getitem w T"

definition get_component_by_entity :: "world \<Rightarrow> addr \<Rightarrow> pytype \<Rightarrow> component option" where
  "get_component_by_entity w e T = entity_get_component (heap w e) T"

definition push_component :: "world \<Rightarrow> addr \<Rightarrow> component \<Rightarrow> world" where
  "push_component w e c =
     (let w1 = w\<lparr>heap := (heap w)(e := entity_push_component (heap w e) c)\<rparr>;
          (xs, w2) = components_getitem w1 (c_type c)
      in w2\<lparr>components := AList.update (c_type c) (xs @ [ComponentRef c]) (components w2)\<rparr>)"

definition pop_component :: "world \<Rightarrow> addr \<Rightarrow> pytype \<Rightarrow> world" where
  "pop_component w e T =
     (let w1 = w\<lparr>heap := (heap w)(e := entity_pop_component (heap w e) T)\<rparr>;
          (xs, w2) = components_getitem w1 T
      in if EntityRef e \<in> set xs
         then (let (ys, w3) = components_getitem w2 T
               in w3\<lparr>components := AList.update T (remove1 (EntityRef e) ys) (components w3)\<rparr>)
         else w2)"

definition has_system :: "world \<Rightarrow> pytype \<Rightarrow> bool" where
  "has_system w S = list_ex id (map (\<lambda>s. s_type s = S) (systems w))"

text \<open>The comprehension inside \<^verbatim>\<open>get_system\<close>.\<close>

definition matching_systems :: "world \<Rightarrow> pytype \<Rightarrow> system list" where
  "matching_systems w S = filter (\<lambda>s. s_type s = S) (systems w)"

definition get_system :: "world \<Rightarrow> pytype \<Rightarrow> error + system option" where
  "get_system w S = next_of_list (matching_systems w S) None"

definition push_system :: "world \<Rightarrow> system \<Rightarrow> world" where
  "push_system w s = w\<lparr>systems := systems w @ [s]\<rparr>"

definition pop_system :: "world \<Rightarrow> pytype \<Rightarrow> (error + unit) \<times> world" where
  "pop_system w S =
     (case get_system w S of
        Inl err \<Rightarrow> (Inl err, w)
      | Inr None \<Rightarrow> (Inr (), w)
      | Inr (Some s) \<Rightarrow>
          (case list_remove (systems w) s of
             Inl err \<Rightarrow> (Inl err, w)
           | Inr ss \<Rightarrow> (Inr (), w\<lparr>systems := ss\<rparr>)))"

section \<open>Sequences of calls\<close>

text \<open>
  One call of a public method of World.  \<open>do_call\<close> gives the world after it, also when the
  method raised (the caller caught the exception and went on).
\<close>

datatype call =
    Push_entity
  | Has_entity addr
  | Pop_entity addr
  | Has_component addr pytype
  | Get_components pytype
  | Get_entities_by_component pytype
  | Get_component_by_entity addr pytype
  | Push_component addr component
  | Pop_component addr pytype
  | Has_system pytype
  | Get_system pytype
  | Push_system system
  | Pop_system pytype

fun do_call :: "call \<Rightarrow> world \<Rightarrow> world" where
  "do_call Push_entity w = snd (push_entity w)"
| "do_call (Has_entity e) w = w"
| "do_call (Pop_entity e) w = snd (pop_entity w e)"
| "do_call (Has_component e T) w = snd (has_component w e T)"
| "do_call (Get_components T) w = snd (get_components w T)"
| "do_call (Get_entities_by_component T) w = snd (get_entities_by_component w T)"
| "do_call (Get_component_by_entity e T) w = w"
| "do_call (Push_component e c) w = push_component w e c"
| "do_call (Pop_component e T) w = pop_component w e T"
| "do_call (Has_system S) w = w"
| "do_call (Get_system S) w = w"
| "do_call (Push_system s) w = push_system w s"
| "do_call (Pop_system S) w = snd (pop_system w S)"

definition calls :: "call list \<Rightarrow> world \<Rightarrow> world" where
  "calls cs w = fold do_call cs w"

section \<open>Invariant of the reachable worlds\<close>

text \<open>The list stored under a type in the index, empty when the type is no key.\<close>

definition bucket :: "world \<Rightarrow> pytype \<Rightarrow> obj list" where
  "bucket w T = (case map_of (components w) T of Some xs \<Rightarrow> xs | None \<Rightarrow> [])"

text \<open>A list of the index that holds components only, as \<^verbatim>\<open>push_component\<close> fills it.\<close>

definition no_entity_refs :: "obj list \<Rightarrow> bool" where
  "no_entity_refs xs =
     list_all (\<lambda>x. case x of EntityRef a \<Rightarrow> False | ComponentRef c \<Rightarrow> True) xs"



section \<open>Classes of a caller\<close>

text \<open>Component and system classes as a program using the module declares them; the
  concrete instances below use them.\<close>

abbreviation PositionT :: pytype where
  "PositionT \<equiv> PyType ''Position'' [PyType ''Component'' []]"

abbreviation SystemT :: pytype where
  "SystemT \<equiv> PyType ''System'' []"

abbreviation MovementT :: pytype where
  "MovementT \<equiv> PyType ''Movement'' [SystemT]"

abbreviation SprintT :: pytype where
  "SprintT \<equiv> PyType ''Sprint'' [MovementT]"

section \<open>Classes\<close>

lemma issubclass_size: "issubclass C S \<Longrightarrow> size S \<le> size C"
proof (induction C S rule: issubclass.induct)
  case (1 n bs S)
  show ?case
  proof (cases "PyType n bs = S")
    case True
    then show ?thesis by auto
  next
    case False
    with "1.prems" obtain b where b: "b \<in> set bs" "issubclass b S"
      by (auto simp: list_ex_iff)
    then have "size S \<le> size b" using "1.IH" by blast
    moreover have "size b < size (PyType n bs)"
      using b(1) by (simp add: size_list_estimation' less_Suc_eq_le)
    ultimately show ?thesis by simp
  qed
qed

text \<open>No class is a strict subclass of itself, so a strict subclass is a different class
  object.\<close>

lemma strict_subclass_neq: "strict_subclass C S \<Longrightarrow> C \<noteq> S"
proof (cases C)
  case (PyType n bs)
  assume "strict_subclass C S"
  with PyType obtain b where b: "b \<in> set bs" "issubclass b S"
    by (auto simp: list_ex_iff)
  then have "size S \<le> size b" by (simp add: issubclass_size)
  moreover have "size b < size C"
    using b(1) PyType by (simp add: size_list_estimation' less_Suc_eq_le)
  ultimately show "C \<noteq> S" by auto
qed

section \<open>The index\<close>


lemma getitem_fst: "fst (components_getitem w T) = bucket w T"
  by (simp add: components_getitem_def bucket_def split: option.splits)

lemma getitem_snd_other [simp]:
  "heap (snd (components_getitem w T)) = heap w"
  "fresh (snd (components_getitem w T)) = fresh w"
  "entities (snd (components_getitem w T)) = entities w"
  "systems (snd (components_getitem w T)) = systems w"
  by (simp_all add: components_getitem_def split: option.splits)

lemma getitem_snd_map_of:
  "map_of (components (snd (components_getitem w T))) = (map_of (components w))(T \<mapsto> bucket w T)"
  by (auto simp add: components_getitem_def bucket_def update_conv' split: option.splits)

text \<open>Reading the defaultdict may add a key, but changes no list.\<close>

lemma bucket_getitem [simp]: "bucket (snd (components_getitem w T)) U = bucket w U"
  by (simp add: bucket_def getitem_snd_map_of)

lemma bucket_push_component:
  "bucket (push_component w e c) T =
     (if T = c_type c then bucket w T @ [ComponentRef c] else bucket w T)"
  by (simp add: push_component_def Let_def split_beta getitem_fst bucket_def update_conv'
      getitem_snd_map_of)

lemma get_component_push_component:
  "get_component_by_entity (push_component w e c) e' T =
     (if e' = e \<and> T = c_type c then Some c else get_component_by_entity w e' T)"
  by (simp add: push_component_def Let_def split_beta get_component_by_entity_def
      entity_get_component_def entity_push_component_def update_conv')

lemma no_entity_refs_simps [simp]:
  "no_entity_refs []"
  "no_entity_refs (xs @ ys) = (no_entity_refs xs \<and> no_entity_refs ys)"
  "no_entity_refs (x # xs) = ((\<exists>c. x = ComponentRef c) \<and> no_entity_refs xs)"
  by (auto simp: no_entity_refs_def split: obj.splits)







section \<open>Every call keeps the invariant\<close>











section \<open>Attaching a component\<close>

text \<open>
  Claim C1: after \<^verbatim>\<open>push_component(e, c)\<close> on a live entity, \<^verbatim>\<open>has_component(e, type(c))\<close> is
  true, \<^verbatim>\<open>get_component_by_entity(e, type(c))\<close> is c, and e occurs exactly once in
  \<^verbatim>\<open>get_entities_by_component(type(c))\<close>.

  The code at a fresh world with one entity and one Position component: the entity is
  live and owns the component, but the index lists the component object instead of the
  entity, so \<^verbatim>\<open>has_component\<close> answers False and the entity occurs in the list zero times.
\<close>

theorem push_component_indexes_the_component:
  "let (e, w1) = push_entity World; c = Component PositionT 0; w2 = push_component w1 e c
   in has_entity w2 e \<and> \<not> fst (has_component w2 e PositionT) \<and>
      get_component_by_entity w2 e PositionT = Some c \<and>
      fst (get_entities_by_component w2 PositionT) = [ComponentRef c]"
  by (simp add: push_entity_def World_def push_component_def components_getitem_def
      has_component_def get_component_by_entity_def get_entities_by_component_def
      entity_push_component_def entity_get_component_def Entity_def has_entity_def)

text \<open>
  Claim C2: in every world reached by calls of the public methods, an entity is in the
  index list of a type exactly when its own component map has a component of that type.

  The code after \<^verbatim>\<open>push_entity\<close> and one \<^verbatim>\<open>push_component\<close>: the entity's map has a Position,
  and the entity is not in the index list of Position.
\<close>

theorem index_misses_owning_entity:
  "let w = calls [Push_entity, Push_component 0 (Component PositionT 0)] World
   in entity_has_component (heap w 0) PositionT \<and>
      EntityRef 0 \<notin> set (fst (get_entities_by_component w PositionT))"
  by (simp add: calls_def push_entity_def World_def push_component_def components_getitem_def
      get_entities_by_component_def entity_has_component_def
      entity_push_component_def Entity_def)

text \<open>
  Claim C4: \<^verbatim>\<open>get_components(T)\<close> has the length of \<^verbatim>\<open>get_entities_by_component(T)\<close>, its
  i-th element is the i-th listed entity's component of type T, and it is the empty list
  when no entity carries T.

  The code after one component was attached: the index list has one element, the
  component itself, and \<^verbatim>\<open>get_components\<close> raises AttributeError when it calls
  \<^verbatim>\<open>_get_component\<close> on it.
\<close>

theorem get_components_raises_after_push_component:
  "let (e, w1) = push_entity World; c = Component PositionT 0; w2 = push_component w1 e c
   in fst (get_components w2 PositionT) = Inl AttributeError \<and>
      length (fst (get_entities_by_component w2 PositionT)) = 1"
  by (simp add: push_entity_def World_def push_component_def components_getitem_def
      get_components_def get_entities_by_component_def obj_get_component_def
      entity_push_component_def Entity_def)

text \<open>
  Claim C5, as the code has it: when an entity already carries a component of type T,
  attaching a second component c2 of type T replaces the stored value, so that
  \<^verbatim>\<open>get_component_by_entity(e, T)\<close> is c2 afterwards, and adds one element to the index
  list of T: \<^verbatim>\<open>push_component\<close> appends on every call, and the length of
  \<^verbatim>\<open>get_entities_by_component(T)\<close> grows by one.
\<close>

theorem push_component_replaces_and_appends:
  assumes "get_component_by_entity w e (c_type c2) = Some c1"
  shows "get_component_by_entity (push_component w e c2) e (c_type c2) = Some c2 \<and>
    length (fst (get_entities_by_component (push_component w e c2) (c_type c2))) =
      Suc (length (fst (get_entities_by_component w (c_type c2))))"
  by (simp add: get_component_push_component get_entities_by_component_def getitem_fst
      bucket_push_component)

theorem push_component_replaces_and_appends_witness:
  "get_component_by_entity
     (push_component (snd (push_entity World)) 0 (Component PositionT 0)) 0
     (c_type (Component PositionT 1)) = Some (Component PositionT 0) \<and>
   get_component_by_entity
     (push_component (push_component (snd (push_entity World)) 0 (Component PositionT 0)) 0
        (Component PositionT 1)) 0 (c_type (Component PositionT 1)) = Some (Component PositionT 1) \<and>
   length (fst (get_entities_by_component
     (push_component (push_component (snd (push_entity World)) 0 (Component PositionT 0)) 0
        (Component PositionT 1)) (c_type (Component PositionT 1)))) =
   Suc (length (fst (get_entities_by_component
     (push_component (snd (push_entity World)) 0 (Component PositionT 0))
     (c_type (Component PositionT 1)))))"
proof -
  have h: "get_component_by_entity
     (push_component (snd (push_entity World)) 0 (Component PositionT 0)) 0
     (c_type (Component PositionT 1)) = Some (Component PositionT 0)"
    by (simp add: get_component_push_component)
  show ?thesis by (rule conjI [OF h push_component_replaces_and_appends [OF h]])
qed

text \<open>The claim as written, that the length of the index list is unchanged by the second
  attachment, fails: the list has one element before it and two after.\<close>

theorem second_push_component_grows_index:
  "let (e, w1) = push_entity World; c1 = Component PositionT 0; c2 = Component PositionT 1;
       w2 = push_component w1 e c1; w3 = push_component w2 e c2
   in get_component_by_entity w2 e PositionT = Some c1 \<and>
      length (fst (get_entities_by_component w2 PositionT)) = 1 \<and>
      length (fst (get_entities_by_component w3 PositionT)) = 2 \<and>
      length (fst (get_entities_by_component w3 PositionT)) \<noteq>
      length (fst (get_entities_by_component w2 PositionT))"
  by (simp add: push_entity_def World_def push_component_def components_getitem_def
      get_component_by_entity_def get_entities_by_component_def
      entity_push_component_def entity_get_component_def Entity_def)

section \<open>Detaching a component, destroying an entity\<close>





section \<open>Systems\<close>

text \<open>
  Claim C3: \<^verbatim>\<open>get_system(S)\<close> never raises; it returns the first registered system of
  type S, and None when there is none.

  The code in every world and for every type: \<^verbatim>\<open>get_system\<close> passes a list to \<^verbatim>\<open>next\<close> and
  raises TypeError, whether or not a system matches.
\<close>

theorem get_system_raises:
  "get_system w S = Inl TypeError"
  by (simp add: get_system_def next_of_list_def)

text \<open>
  Claim C8: \<^verbatim>\<open>pop_entity\<close> of an entity that is not live fails and leaves the world as it
  was, while \<^verbatim>\<open>pop_component\<close> of a type the entity does not carry and \<^verbatim>\<open>pop_system\<close> of a
  type that is not registered do nothing and raise no error.

  The code at a fresh world: no system of type S is registered, and \<^verbatim>\<open>pop_system(S)\<close>
  raises TypeError (the world is unchanged).
\<close>

theorem pop_system_unregistered_raises:
  "\<not> has_system World S \<and> pop_system World S = (Inl TypeError, World)"
  by (simp add: pop_system_def get_system_def next_of_list_def has_system_def World_def)

text \<open>
  Claim C9: after \<^verbatim>\<open>push_system(s)\<close>, \<^verbatim>\<open>has_system(type(s))\<close> is true; and when exactly one
  system of type S is registered, \<^verbatim>\<open>pop_system(S)\<close> returns without error and
  \<^verbatim>\<open>has_system(S)\<close> is false afterwards.

  The code at a world with one Movement system: \<^verbatim>\<open>has_system\<close> is true, exactly one system
  matches, \<^verbatim>\<open>pop_system\<close> raises TypeError, and the system is still registered afterwards.
\<close>

theorem pop_system_registered_raises:
  "let s = System MovementT 0; w = push_system World s
   in has_system w MovementT \<and> matching_systems w MovementT = [s] \<and>
      fst (pop_system w MovementT) = Inl TypeError \<and>
      has_system (snd (pop_system w MovementT)) MovementT"
  by (simp add: pop_system_def get_system_def next_of_list_def has_system_def World_def
      push_system_def matching_systems_def)

text \<open>
  Claim C10: systems are matched by their exact class.  \<^verbatim>\<open>has_system(S)\<close> is true exactly
  when a registered system has type S; and for a system s whose class is a strict
  subclass of S: registering s does not change \<^verbatim>\<open>has_system(S)\<close>, s is not among the
  systems \<^verbatim>\<open>get_system(S)\<close> selects and is not its result, and \<^verbatim>\<open>pop_system(S)\<close> leaves every
  registration of s in place.
\<close>

theorem system_lookup_by_exact_type:
  assumes "strict_subclass (s_type s) S"
  shows "has_system w S = (\<exists>t\<in>set (systems w). s_type t = S) \<and>
    has_system (push_system w s) S = has_system w S \<and>
    s \<notin> set (matching_systems w S) \<and>
    get_system w S \<noteq> Inr (Some s) \<and>
    count_list (systems (snd (pop_system w S))) s = count_list (systems w) s"
proof -
  have ne: "s_type s \<noteq> S" using assms by (rule strict_subclass_neq)
  have "has_system w S = (\<exists>t\<in>set (systems w). s_type t = S)"
    by (auto simp: has_system_def list_ex_iff)
  moreover have "has_system (push_system w s) S = has_system w S"
    using ne by (simp add: has_system_def push_system_def)
  moreover have "s \<notin> set (matching_systems w S)"
    using ne by (simp add: matching_systems_def)
  moreover have "get_system w S \<noteq> Inr (Some s)"
    by (simp add: get_system_def next_of_list_def)
  moreover have "count_list (systems (snd (pop_system w S))) s = count_list (systems w) s"
    by (simp add: pop_system_def get_system_def next_of_list_def)
  ultimately show ?thesis by simp
qed

theorem system_lookup_by_exact_type_witness:
  "strict_subclass (s_type (System SprintT 0)) MovementT \<and>
   has_system (push_system World (System SprintT 0)) MovementT =
     (\<exists>t\<in>set (systems (push_system World (System SprintT 0))). s_type t = MovementT) \<and>
   has_system (push_system (push_system World (System SprintT 0)) (System SprintT 0)) MovementT =
     has_system (push_system World (System SprintT 0)) MovementT \<and>
   System SprintT 0 \<notin> set (matching_systems (push_system World (System SprintT 0)) MovementT) \<and>
   get_system (push_system World (System SprintT 0)) MovementT \<noteq> Inr (Some (System SprintT 0)) \<and>
   count_list (systems (snd (pop_system (push_system World (System SprintT 0)) MovementT)))
     (System SprintT 0) =
   count_list (systems (push_system World (System SprintT 0))) (System SprintT 0)"
proof -
  have h: "strict_subclass (s_type (System SprintT 0)) MovementT" by simp
  show ?thesis by (rule conjI [OF h system_lookup_by_exact_type [OF h]])
qed

end
